theory Spec2Isabelle
  imports Main
begin

section \<open>The scratch-org creation command of simply-org\<close>

text \<open>
  A shallow embedding of \<^verbatim>\<open>src/commands/simply/org/create/scratch.ts\<close> and of
  \<^verbatim>\<open>src/common/orgUtils.ts\<close>. The command talks to remote services through the
  Salesforce SDK; every SDK call is a field of the record \<open>world\<close> below, which gives the
  answer of the call or the value it throws. A computation returns the list of the calls
  and terminal actions it performed, in order, and either the thrown value or its result.
\<close>

subsection \<open>JavaScript values\<close>

datatype json =
    JNull
  | JBool bool
  | JNumber int
  | JString string
  | JArray "json list"
  | JObject "(string \<times> json) list"

text \<open>A JavaScript object with string keys (\<^verbatim>\<open>Record<string, unknown>\<close>).\<close>

type_synonym json_record = "string \<rightharpoonup> json"

text \<open>
  Truthiness of a value of type \<^verbatim>\<open>string | undefined\<close>: \<^verbatim>\<open>undefined\<close> and the
  empty string are falsy.
\<close>

fun truthy :: "string option \<Rightarrow> bool" where
  "truthy None = False"
| "truthy (Some s) = (s \<noteq> [])"

text \<open>\<^verbatim>\<open>String.prototype.startsWith\<close>.\<close>

definition startsWith :: "string \<Rightarrow> string \<Rightarrow> bool" where
  "startsWith s p = (take (length p) s = p)"

text \<open>
  \<^verbatim>\<open>String.prototype.replace\<close> with a string pattern: only the first occurrence of the
  pattern is replaced.
\<close>

fun replace :: "string \<Rightarrow> string \<Rightarrow> string \<Rightarrow> string" where
  "replace [] pat rep = (if pat = [] then rep else [])"
| "replace (c # cs) pat rep =
     (if startsWith (c # cs) pat then rep @ drop (length pat) (c # cs)
      else c # replace cs pat rep)"

subsection \<open>Thrown values and computations\<close>

text \<open>
  What a JavaScript \<^verbatim>\<open>throw\<close> can carry here: an \<^verbatim>\<open>SfError\<close> with its name, message
  and data; an error made by \<^verbatim>\<open>messages.createError(key)\<close> from the command's message
  bundle; the error thrown by \<^verbatim>\<open>this.error(message, {code, exit})\<close>; a
  \<^verbatim>\<open>TypeError\<close>; anything else.
\<close>

datatype thrown =
    SfError string string "json option"
  | MessagesError string
  | CLIError string string nat
  | TypeError string
  | OtherError string

text \<open>\<^verbatim>\<open>new SfError(message)\<close>: the name defaults to \<^verbatim>\<open>'SfError'\<close>, no data.\<close>

definition new_SfError :: "string \<Rightarrow> thrown" where
  "new_SfError message = SfError ''SfError'' message None"

text \<open>
  A text shown to the user: a literal, or \<^verbatim>\<open>messages.getMessage(key, tokens)\<close>, kept as
  the key and the tokens (the message bundle is not part of the sources).
\<close>

datatype ui_text = Literal string | Message string "json option list"

subsection \<open>Data of the command\<close>

text \<open>
  Handles of the SDK. \<^verbatim>\<open>AuthInfo.create({ username })\<close> yields an authorization,
  \<^verbatim>\<open>Connection.create({ authInfo })\<close> a connection, \<^verbatim>\<open>Org.create({ connection })\<close>
  an org handle, whose field \<^verbatim>\<open>Org.Fields.INSTANCE_URL\<close> may be missing.
\<close>

datatype authInfo = AuthInfo string

datatype connection = Connection authInfo

record org =
  org_connection :: connection
  instanceUrl :: "string option"

text \<open>
  The answer of the \<^verbatim>\<open>/limits\<close> resource (\<^verbatim>\<open>LimitResult\<close>): an object from
  counter names to \<^verbatim>\<open>{ Max, Remaining }\<close>, as the list \<^verbatim>\<open>Object.entries\<close> gives.
  The counters are integers.
\<close>

record limit_entry =
  Max :: int
  Remaining :: int

type_synonym LimitResult = "(string \<times> limit_entry) list"

record Limit =
  limit_name :: string
  limit_max :: int
  remaining :: int

text \<open>The parsed flags. A flag that was not given is \<open>None\<close> (\<^verbatim>\<open>undefined\<close>).\<close>

datatype duration = Duration_minutes nat | Duration_days nat

record flags =
  admin_email :: "string option"
  "alias" :: "string option"
  api_version :: "string option"
  async :: bool
  client_id :: "string option"
  definition_file :: "string option"
  description :: "string option"
  duration_days :: nat
  edition :: "string option"
  name :: "string option"
  no_ancestors :: bool
  no_namespace :: bool
  release :: "string option"
  set_default :: bool
  source_org :: "string option"
  target_dev_hub :: "string list option"
  track_source :: bool
  username :: "string option"
  wait :: duration

record ScratchOrgCreateOptions =
  o_alias :: "string option"
  o_apiversion :: "string option"
  o_clientSecret :: "string option"
  o_connectedAppConsumerKey :: "string option"
  o_durationDays :: nat
  o_hubOrg :: org
  o_nonamespace :: bool
  o_noancestors :: bool
  o_orgConfig :: json_record
  o_setDefault :: bool
  o_tracksSource :: bool
  o_wait :: duration

record ScratchOrgInfo =
  Id :: "string option"

record AuthFields =
  orgId :: "string option"

text \<open>What \<^verbatim>\<open>scratchOrgCreate\<close> resolves with.\<close>

record ScratchOrgCreateResult =
  r_username :: "string option"
  r_scratchOrgInfo :: "ScratchOrgInfo option"
  r_authFields :: "AuthFields option"
  r_warnings :: "string list"

text \<open>What the command returns (\<^verbatim>\<open>ScratchCreateResponse\<close>).\<close>

record ScratchCreateResponse =
  s_username :: "string option"
  s_scratchOrgInfo :: ScratchOrgInfo
  s_authFields :: "AuthFields option"
  s_warnings :: "string list"
  s_orgId :: "string option"

text \<open>The data of a scratch-org lifecycle event.\<close>

record ScratchOrgLifecycleEvent =
  stage :: string

subsection \<open>The outside world\<close>

text \<open>
  The calls to the SDK and the actions on the terminal, as they are performed.
  \<open>Lifecycle_on\<close> is the subscription
  \<^verbatim>\<open>Lifecycle.getInstance().on(scratchOrgLifecycleEventName, ...)\<close>; \<open>spinner_status\<close>
  is the subscribed handler setting \<^verbatim>\<open>this.spinner.status\<close>.
\<close>

datatype event =
    AuthInfo_create_call string
  | Connection_create_call authInfo
  | request_call connection string
  | Org_create_call connection
  | secretPrompt_call ui_text
  | readFile_call string
  | Lifecycle_on
  | log_call
  | spinner_start ui_text
  | spinner_status string
  | spinner_stop "string option"
  | scratchOrgCreate_call ScratchOrgCreateOptions
  | info_call ui_text
  | logSuccess_call ui_text

text \<open>
  The answers of the outside world. Each SDK call either resolves (\<open>Inr\<close>) or rejects
  with a thrown value (\<open>Inl\<close>). \<open>readDefinition\<close> is \<^verbatim>\<open>fs.promises.readFile\<close>
  followed by \<^verbatim>\<open>JSON.parse\<close>, with the parsed value as the
  \<^verbatim>\<open>Record<string, unknown>\<close> the source casts it to. \<open>scratchOrgCreate\<close> also gives
  the lifecycle events the workflow emits while it runs. \<open>buildStatus\<close> renders the
  status line (its definition is not part of the sources), \<open>config_bin\<close> is
  \<^verbatim>\<open>this.config.bin\<close>. The answers are those of one run: the same call gets the
  same answer.
\<close>

record world =
  AuthInfo_create :: "string \<Rightarrow> thrown + authInfo"
  Connection_create :: "authInfo \<Rightarrow> thrown + connection"
  request :: "connection \<Rightarrow> string \<Rightarrow> thrown + LimitResult"
  Org_create :: "connection \<Rightarrow> thrown + org"
  secretPrompt :: "thrown + string"
  readDefinition :: "string \<Rightarrow> thrown + json_record"
  scratchOrgCreate ::
    "ScratchOrgCreateOptions \<Rightarrow>
       ScratchOrgLifecycleEvent list \<times> (thrown + ScratchOrgCreateResult)"
  buildStatus :: "ScratchOrgLifecycleEvent \<Rightarrow> string \<Rightarrow> string"
  config_bin :: string

text \<open>
  A computation: the events it performed and how it ended. \<open>io_bind\<close> is sequencing
  (\<^verbatim>\<open>await\<close>): a thrown value skips the rest. \<open>io_catch\<close> is
  \<^verbatim>\<open>try { ... } catch (error) { ... }\<close>.
\<close>

type_synonym 'a io = "event list \<times> (thrown + 'a)"

definition io_return :: "'a \<Rightarrow> 'a io" where
  "io_return a = ([], Inr a)"

definition io_throw :: "thrown \<Rightarrow> 'a io" where
  "io_throw e = ([], Inl e)"

definition io_emit :: "event \<Rightarrow> unit io" where
  "io_emit ev = ([ev], Inr ())"

definition io_call :: "event \<Rightarrow> thrown + 'a \<Rightarrow> 'a io" where
  "io_call ev answer = ([ev], answer)"

definition io_bind :: "'a io \<Rightarrow> ('a \<Rightarrow> 'b io) \<Rightarrow> 'b io" where
  "io_bind m f =
     (case snd m of
        Inl e \<Rightarrow> (fst m, Inl e)
      | Inr a \<Rightarrow> (fst m @ fst (f a), snd (f a)))"

definition io_catch :: "'a io \<Rightarrow> (thrown \<Rightarrow> 'a io) \<Rightarrow> 'a io" where
  "io_catch m h =
     (case snd m of
        Inl e \<Rightarrow> (fst m @ fst (h e), snd (h e))
      | Inr a \<Rightarrow> m)"

subsection \<open>orgUtils.ts\<close>

definition getApiLimits :: "world \<Rightarrow> connection \<Rightarrow> Limit list io" where
  "getApiLimits w connection =
     io_bind (io_call (request_call connection ''/limits'') (request w connection ''/limits''))
       (\<lambda>result.
          io_return
            (map (\<lambda>(name, e). \<lparr>limit_name = name, limit_max = Max e, remaining = Remaining e\<rparr>)
               result))"

definition canCreateScratchOrg :: "world \<Rightarrow> connection \<Rightarrow> bool io" where
  "canCreateScratchOrg w connection =
     io_bind (getApiLimits w connection)
       (\<lambda>limits.
          let activeScratchOrgs = find (\<lambda>limit. limit_name limit = ''ActiveScratchOrgs'') limits;
              dailyScratchOrgs = find (\<lambda>limit. limit_name limit = ''DailyScratchOrgs'') limits;
              activeRemaining = (case activeScratchOrgs of None \<Rightarrow> 0 | Some l \<Rightarrow> remaining l);
              dailyRemaining = (case dailyScratchOrgs of None \<Rightarrow> 0 | Some l \<Rightarrow> remaining l)
          in io_return (activeRemaining > 0 \<and> dailyRemaining > 0))"

subsection \<open>The flags\<close>

text \<open>The \<^verbatim>\<open>parse\<close> function of the \<^verbatim>\<open>edition\<close> flag.\<close>

definition edition_parse :: "string \<Rightarrow> string" where
  "edition_parse v = (if startsWith v ''partner-'' then replace v ''-'' '' '' else v)"

subsection \<open>The command\<close>

text \<open>
  The loop over \<^verbatim>\<open>flags['target-dev-hub']\<close>: \<open>None\<close> when the list is used up and
  \<^verbatim>\<open>targetDevHubOrg\<close> is still unset, the org handle at the \<^verbatim>\<open>break\<close>.
\<close>

fun findDevHub :: "world \<Rightarrow> string list \<Rightarrow> org option io" where
  "findDevHub w [] = io_return None"
| "findDevHub w (targetDevHub # rest) =
     io_bind (io_call (AuthInfo_create_call targetDevHub) (AuthInfo_create w targetDevHub))
       (\<lambda>targetDevHubAuthInfo.
     io_bind (io_call (Connection_create_call targetDevHubAuthInfo)
                (Connection_create w targetDevHubAuthInfo))
       (\<lambda>targetDevHubConnection.
     io_bind (canCreateScratchOrg w targetDevHubConnection)
       (\<lambda>available.
          if available
          then io_bind (io_call (Org_create_call targetDevHubConnection)
                          (Org_create w targetDevHubConnection))
                 (\<lambda>targetDevHubOrg. io_return (Some targetDevHubOrg))
          else findDevHub w rest)))"

text \<open>
  What the loop does with one candidate before it decides (lines 170 to 175):
  authorization, connection, capacity check. The result is the connection and the answer
  of the check.
\<close>

definition probe :: "world \<Rightarrow> string \<Rightarrow> (connection \<times> bool) io" where
  "probe w targetDevHub =
     io_bind (io_call (AuthInfo_create_call targetDevHub) (AuthInfo_create w targetDevHub))
       (\<lambda>targetDevHubAuthInfo.
     io_bind (io_call (Connection_create_call targetDevHubAuthInfo)
                (Connection_create w targetDevHubAuthInfo))
       (\<lambda>targetDevHubConnection.
     io_bind (canCreateScratchOrg w targetDevHubConnection)
       (\<lambda>available. io_return (targetDevHubConnection, available))))"

text \<open>
  One spread \<^verbatim>\<open>...(flag ? { key: flag } : {})\<close> of the \<^verbatim>\<open>orgConfig\<close> literal.
\<close>

definition overlay :: "string \<Rightarrow> string option \<Rightarrow> json_record" where
  "overlay key flag =
     (case flag of
        None \<Rightarrow> Map.empty
      | Some v \<Rightarrow> if truthy (Some v) then [key \<mapsto> JString v] else Map.empty)"

text \<open>
  The \<^verbatim>\<open>orgConfig\<close> object literal (lines 201 to 212). \<open>definition\<close> is the first
  spread: the parsed definition file, or the empty object when the flag is not given.
  A later spread overwrites the keys of the earlier ones.
\<close>

definition orgConfig :: "flags \<Rightarrow> json_record \<Rightarrow> json_record" where
  "orgConfig flags definition =
     definition
       ++ overlay ''edition'' (edition flags)
       ++ overlay ''username'' (username flags)
       ++ overlay ''description'' (description flags)
       ++ overlay ''orgName'' (name flags)
       ++ overlay ''release'' (release flags)
       ++ overlay ''sourceOrg'' (source_org flags)
       ++ overlay ''adminEmail'' (admin_email flags)"

text \<open>
  The \<^verbatim>\<open>scratchOrgCreateOptions\<close> literal (lines 190 to 216), with the two calls
  it awaits: the secret prompt when a client id is given, then the definition file.
\<close>

definition scratchOrgCreateOptions :: "world \<Rightarrow> flags \<Rightarrow> org \<Rightarrow> ScratchOrgCreateOptions io" where
  "scratchOrgCreateOptions w flags targetDevHubOrg =
     io_bind
       (if truthy (client_id flags)
        then io_bind (io_call (secretPrompt_call (Message ''prompt.secret'' [])) (secretPrompt w))
               (\<lambda>secret. io_return (Some secret))
        else io_return None)
       (\<lambda>clientSecret.
     io_bind
       (case definition_file flags of
          None \<Rightarrow> io_return Map.empty
        | Some path \<Rightarrow>
            if truthy (Some path) then io_call (readFile_call path) (readDefinition w path)
            else io_return Map.empty)
       (\<lambda>definition.
     io_return
       \<lparr>o_alias = alias flags,
        o_apiversion = api_version flags,
        o_clientSecret = clientSecret,
        o_connectedAppConsumerKey = client_id flags,
        o_durationDays = duration_days flags,
        o_hubOrg = targetDevHubOrg,
        o_nonamespace = no_namespace flags,
        o_noancestors = no_ancestors flags,
        o_orgConfig = orgConfig flags definition,
        o_setDefault = set_default flags,
        o_tracksSource = track_source flags,
        o_wait = (if async flags then Duration_minutes 0 else wait flags)\<rparr>))"

text \<open>
  \<^verbatim>\<open>(error.data as { scratchOrgInfoId: string }).scratchOrgInfoId\<close>: reading a property
  of \<^verbatim>\<open>undefined\<close> or \<^verbatim>\<open>null\<close> throws a \<^verbatim>\<open>TypeError\<close>; a value without
  the property gives \<^verbatim>\<open>undefined\<close>.
\<close>

fun data_scratchOrgInfoId :: "json option \<Rightarrow> json option io" where
  "data_scratchOrgInfoId None =
     io_throw (TypeError ''Cannot read properties of undefined'')"
| "data_scratchOrgInfoId (Some JNull) =
     io_throw (TypeError ''Cannot read properties of null'')"
| "data_scratchOrgInfoId (Some (JObject kvs)) = io_return (map_of kvs ''scratchOrgInfoId'')"
| "data_scratchOrgInfoId (Some v) = io_return None"

text \<open>
  The variable \<^verbatim>\<open>lastStatus\<close> once \<^verbatim>\<open>scratchOrgCreate\<close> has settled: the status of
  the last lifecycle event the subscribed handler saw, \<^verbatim>\<open>undefined\<close> when there is no
  subscription or no event.
\<close>

definition statuses :: "world \<Rightarrow> flags \<Rightarrow> string \<Rightarrow> ScratchOrgCreateOptions \<Rightarrow> string list" where
  "statuses w flags baseUrl options =
     (if async flags then []
      else map (\<lambda>data. buildStatus w data baseUrl) (fst (scratchOrgCreate w options)))"

definition lastStatus :: "world \<Rightarrow> flags \<Rightarrow> string \<Rightarrow> ScratchOrgCreateOptions \<Rightarrow> string option" where
  "lastStatus w flags baseUrl options =
     (case rev (statuses w flags baseUrl options) of [] \<Rightarrow> None | s # _ \<Rightarrow> Some s)"

text \<open>
  The events of the provisioning stage: the subscription to the lifecycle event and the
  call of the workflow.
\<close>

fun workflow_event :: "event \<Rightarrow> bool" where
  "workflow_event Lifecycle_on = True"
| "workflow_event (scratchOrgCreate_call options) = True"
| "workflow_event ev = False"

text \<open>
  The test of the \<^verbatim>\<open>catch\<close> clause,
  \<^verbatim>\<open>error instanceof SfError && error.name === 'ScratchOrgInfoTimeoutError'\<close>, and
  \<^verbatim>\<open>error.data\<close>. An error of the command's message bundle has a name made from
  its key, which is not the name of the timeout.
\<close>

fun isTimeoutError :: "thrown \<Rightarrow> bool" where
  "isTimeoutError (SfError error_name message data) = (error_name = ''ScratchOrgInfoTimeoutError'')"
| "isTimeoutError error = False"

fun error_data :: "thrown \<Rightarrow> json option" where
  "error_data (SfError error_name message data) = data"
| "error_data error = None"

text \<open>The rest of \<^verbatim>\<open>run\<close> (lines 218 to 261): subscription, spinner, and the \<^verbatim>\<open>try\<close> statement.\<close>

definition createScratchOrg ::
  "world \<Rightarrow> flags \<Rightarrow> string \<Rightarrow> ScratchOrgCreateOptions \<Rightarrow> ScratchCreateResponse io" where
  "createScratchOrg w flags baseUrl options =
     io_bind (if \<not> async flags then io_emit Lifecycle_on else io_return ())
       (\<lambda>_.
     io_bind (io_emit log_call)
       (\<lambda>_.
     io_bind
       (io_emit
          (spinner_start
             (Literal
                (if async flags
                 then ''Requesting Scratch Org (will not wait for completion because --async)''
                 else ''Creating Scratch Org''))))
       (\<lambda>_.
     io_catch
       (io_bind
          (scratchOrgCreate_call options # map spinner_status (statuses w flags baseUrl options),
           snd (scratchOrgCreate w options))
          (\<lambda>result.
        io_bind (io_emit (spinner_stop (lastStatus w flags baseUrl options)))
          (\<lambda>_.
        case r_scratchOrgInfo result of
          None \<Rightarrow> io_throw (new_SfError ''The scratch org did not return with any information'')
        | Some scratchOrgInfo \<Rightarrow>
            io_bind (io_emit log_call)
              (\<lambda>_.
            io_bind
              (if async flags
               then io_emit
                      (info_call
                         (Message ''action.resume''
                            [Some (JString (config_bin w)), map_option JString (Id scratchOrgInfo)]))
               else io_emit (logSuccess_call (Message ''success'' [])))
              (\<lambda>_.
            io_return
              \<lparr>s_username = r_username result,
               s_scratchOrgInfo = scratchOrgInfo,
               s_authFields = r_authFields result,
               s_warnings = r_warnings result,
               s_orgId = (case r_authFields result of None \<Rightarrow> None | Some a \<Rightarrow> orgId a)\<rparr>)))))
       (\<lambda>error.
          if isTimeoutError error
          then io_bind (io_emit (spinner_stop (lastStatus w flags baseUrl options)))
                 (\<lambda>_.
               io_bind (data_scratchOrgInfoId (error_data error))
                 (\<lambda>scratchOrgInfoId.
               io_bind
                 (io_emit
                    (info_call
                       (Message ''action.resume''
                          [Some (JString (config_bin w)), scratchOrgInfoId])))
                 (\<lambda>_.
               io_throw
                 (CLIError ''The scratch org did not complete within your wait time''
                    ''69'' 69))))
          else io_throw error))))"

text \<open>
  What \<open>createScratchOrg\<close> has done when \<^verbatim>\<open>scratchOrgCreate\<close> settles: the
  subscription unless \<^verbatim>\<open>async\<close>, the spinner, the call of the workflow, and the
  status updates of the subscribed handler.
\<close>

definition started :: "world \<Rightarrow> flags \<Rightarrow> string \<Rightarrow> ScratchOrgCreateOptions \<Rightarrow> event list" where
  "started w flags baseUrl options =
     (if async flags then [] else [Lifecycle_on])
     @ [log_call,
        spinner_start
          (Literal (if async flags
                    then ''Requesting Scratch Org (will not wait for completion because --async)''
                    else ''Creating Scratch Org'')),
        scratchOrgCreate_call options]
     @ map spinner_status (statuses w flags baseUrl options)"

text \<open>
  The first part of \<^verbatim>\<open>run\<close> (lines 164 to 216): the dev hub, its instance URL and
  the options of the workflow.
\<close>

definition resolveOptions :: "world \<Rightarrow> flags \<Rightarrow> (string \<times> ScratchOrgCreateOptions) io" where
  "resolveOptions w flags =
     io_bind (findDevHub w (case target_dev_hub flags of None \<Rightarrow> [] | Some hubs \<Rightarrow> hubs))
       (\<lambda>found.
          case found of
            None \<Rightarrow> io_throw (MessagesError ''noAvailableDevhubs'')
          | Some targetDevHubOrg \<Rightarrow>
              (case instanceUrl targetDevHubOrg of
                 None \<Rightarrow> io_throw (new_SfError ''No instance URL found for the dev hub'')
               | Some baseUrl \<Rightarrow>
                   if \<not> truthy (Some baseUrl)
                   then io_throw (new_SfError ''No instance URL found for the dev hub'')
                   else io_bind (scratchOrgCreateOptions w flags targetDevHubOrg)
                          (\<lambda>options. io_return (baseUrl, options))))"

text \<open>\<^verbatim>\<open>OrgCreateScratch.run\<close>.\<close>

definition run :: "world \<Rightarrow> flags \<Rightarrow> ScratchCreateResponse io" where
  "run w flags =
     io_bind (resolveOptions w flags)
       (\<lambda>(baseUrl, options). createScratchOrg w flags baseUrl options)"

subsection \<open>An example world\<close>

text \<open>
  Three dev hubs: \<^verbatim>\<open>hubA\<close> has no active scratch org left and does not report the daily
  counter, \<^verbatim>\<open>hubB\<close> has capacity, \<^verbatim>\<open>hubC\<close> is not authorized, so that
  \<^verbatim>\<open>AuthInfo.create\<close> rejects. The definition file sets the org name and the edition.
\<close>

definition example_limits :: "connection \<Rightarrow> LimitResult" where
  "example_limits c =
     (if c = Connection (AuthInfo ''hubA'')
      then [(''ActiveScratchOrgs'', \<lparr>Max = 40, Remaining = 0\<rparr>)]
      else [(''ActiveScratchOrgs'', \<lparr>Max = 40, Remaining = 3\<rparr>),
            (''DailyScratchOrgs'', \<lparr>Max = 80, Remaining = 1\<rparr>)])"

definition example_result :: ScratchOrgCreateResult where
  "example_result =
     \<lparr>r_username = Some ''test-abc@example.com'',
      r_scratchOrgInfo = Some \<lparr>Id = Some ''2SR000000000001''\<rparr>,
      r_authFields = Some \<lparr>orgId = Some ''00D000000000001''\<rparr>,
      r_warnings = []\<rparr>"

definition example_hubOrg :: org where
  "example_hubOrg =
     \<lparr>org_connection = Connection (AuthInfo ''hubB''),
      instanceUrl = Some ''https://hub.example.com''\<rparr>"

definition example_definition :: json_record where
  "example_definition =
     [''orgName'' \<mapsto> JString ''From File'', ''edition'' \<mapsto> JString ''Developer'']"

definition example_world :: world where
  "example_world =
     \<lparr>AuthInfo_create =
        (\<lambda>u. if u = ''hubC''
             then Inl (SfError ''NamedOrgNotFoundError'' ''No authorization information found'' None)
             else Inr (AuthInfo u)),
      Connection_create = (\<lambda>a. Inr (Connection a)),
      request = (\<lambda>c url. Inr (example_limits c)),
      Org_create =
        (\<lambda>c. Inr \<lparr>org_connection = c, instanceUrl = Some ''https://hub.example.com''\<rparr>),
      secretPrompt = Inr ''secret'',
      readDefinition = (\<lambda>path. Inr example_definition),
      scratchOrgCreate = (\<lambda>options. ([\<lparr>stage = ''Send Request''\<rparr>], Inr example_result)),
      buildStatus = (\<lambda>data url. stage data),
      config_bin = ''sf''\<rparr>"

text \<open>
  The same world when the workflow times out, when it resolves without scratch-org info,
  when \<^verbatim>\<open>Org.create\<close> rejects, and when the workflow fails for another reason.
\<close>

definition timeout_world :: world where
  "timeout_world =
     example_world
       \<lparr>scratchOrgCreate :=
          (\<lambda>options.
             ([\<lparr>stage = ''Send Request''\<rparr>],
              Inl (SfError ''ScratchOrgInfoTimeoutError'' ''The scratch org did not complete''
                     (Some (JObject [(''scratchOrgInfoId'', JString ''2SR000000000001'')])))))\<rparr>"

definition empty_world :: world where
  "empty_world =
     example_world
       \<lparr>scratchOrgCreate :=
          (\<lambda>options. ([], Inr (example_result\<lparr>r_scratchOrgInfo := None\<rparr>)))\<rparr>"

definition org_failing_world :: world where
  "org_failing_world =
     example_world
       \<lparr>Org_create :=
          (\<lambda>c. Inl (SfError ''OrgInitError'' ''The org could not be initialized'' None))\<rparr>"

definition failing_world :: world where
  "failing_world =
     example_world
       \<lparr>scratchOrgCreate :=
          (\<lambda>options.
             ([], Inl (SfError ''RemoteOrgSignupFailed'' ''The request to create a scratch org failed''
                         None)))\<rparr>"

definition example_flags :: flags where
  "example_flags =
     \<lparr>admin_email = None,
      alias = Some ''scratch'',
      api_version = None,
      async = False,
      client_id = None,
      definition_file = Some ''config/project-scratch-def.json'',
      description = None,
      duration_days = 7,
      edition = None,
      name = Some [],
      no_ancestors = False,
      no_namespace = False,
      release = None,
      set_default = False,
      source_org = None,
      target_dev_hub = Some [''hubA'', ''hubB''],
      track_source = True,
      username = None,
      wait = Duration_minutes 5\<rparr>"

text \<open>
  The options that \<^verbatim>\<open>run\<close> assembles in the example world from the example flags,
  with \<^verbatim>\<open>async\<close> set or not.
\<close>

definition example_workflow_options :: "bool \<Rightarrow> ScratchOrgCreateOptions" where
  "example_workflow_options a =
     \<lparr>o_alias = Some ''scratch'', o_apiversion = None, o_clientSecret = None,
      o_connectedAppConsumerKey = None, o_durationDays = 7, o_hubOrg = example_hubOrg,
      o_nonamespace = False, o_noancestors = False,
      o_orgConfig = orgConfig (example_flags\<lparr>async := a\<rparr>) example_definition,
      o_setDefault = False, o_tracksSource = True,
      o_wait = (if a then Duration_minutes 0 else Duration_minutes 5)\<rparr>"

section \<open>Properties\<close>

subsection \<open>The capacity check\<close>

text \<open>
  The limits that \<^verbatim>\<open>getApiLimits\<close> builds are looked up as the answer itself is:
  \<^verbatim>\<open>find\<close> by name gives the entry of that key.
\<close>

lemma find_limit_name:
  "find (\<lambda>limit. limit_name limit = k)
     (map (\<lambda>(name, e). \<lparr>limit_name = name, limit_max = Max e, remaining = Remaining e\<rparr>) result)
   = map_option (\<lambda>e. \<lparr>limit_name = k, limit_max = Max e, remaining = Remaining e\<rparr>)
       (map_of result k)"
  by (induction result) auto

text \<open>
  C1. Whenever the \<^verbatim>\<open>/limits\<close> request answers, \<^verbatim>\<open>canCreateScratchOrg\<close> returns a
  boolean and raises nothing; it returns true if and only if the answer has both the counter
  \<^verbatim>\<open>ActiveScratchOrgs\<close> and the counter \<^verbatim>\<open>DailyScratchOrgs\<close> and both remaining
  values are greater than zero. A missing counter counts as zero remaining, so the
  result is false.
\<close>

theorem canCreateScratchOrg_iff:
  assumes "request w c ''/limits'' = Inr result"
  shows "snd (canCreateScratchOrg w c) =
     Inr (\<exists>a d. map_of result ''ActiveScratchOrgs'' = Some a
               \<and> map_of result ''DailyScratchOrgs'' = Some d
               \<and> 0 < Remaining a \<and> 0 < Remaining d)"
  using assms
  by (auto simp: canCreateScratchOrg_def getApiLimits_def io_bind_def io_call_def io_return_def
      find_limit_name Let_def split: option.splits)

theorem canCreateScratchOrg_iff_witness:
  "request example_world (Connection (AuthInfo ''hubB'')) ''/limits''
     = Inr [(''ActiveScratchOrgs'', \<lparr>Max = 40, Remaining = 3\<rparr>),
            (''DailyScratchOrgs'', \<lparr>Max = 80, Remaining = 1\<rparr>)]
   \<and> snd (canCreateScratchOrg example_world (Connection (AuthInfo ''hubB''))) = Inr True
   \<and> request example_world (Connection (AuthInfo ''hubA'')) ''/limits''
     = Inr [(''ActiveScratchOrgs'', \<lparr>Max = 40, Remaining = 0\<rparr>)]
   \<and> snd (canCreateScratchOrg example_world (Connection (AuthInfo ''hubA''))) = Inr False"
proof -
  have answerB: "request example_world (Connection (AuthInfo ''hubB'')) ''/limits''
     = Inr [(''ActiveScratchOrgs'', \<lparr>Max = 40, Remaining = 3\<rparr>),
            (''DailyScratchOrgs'', \<lparr>Max = 80, Remaining = 1\<rparr>)]"
    by (simp add: example_world_def example_limits_def)
  have answerA: "request example_world (Connection (AuthInfo ''hubA'')) ''/limits''
     = Inr [(''ActiveScratchOrgs'', \<lparr>Max = 40, Remaining = 0\<rparr>)]"
    by (simp add: example_world_def example_limits_def)
  show ?thesis
    using answerA answerB canCreateScratchOrg_iff [OF answerA] canCreateScratchOrg_iff [OF answerB]
    by simp
qed

subsection \<open>The edition flag\<close>

text \<open>
  C7. The parser of the \<^verbatim>\<open>edition\<close> flag turns every value \<^verbatim>\<open>partner-X\<close> into
  \<^verbatim>\<open>partner X\<close>, and returns every value that does not begin with \<^verbatim>\<open>partner-\<close>
  as it is.
\<close>

theorem edition_parse_partner:
  "edition_parse (''partner-'' @ x) = ''partner '' @ x
   \<and> (\<not> startsWith v ''partner-'' \<longrightarrow> edition_parse v = v)"
  by (simp add: edition_parse_def startsWith_def)

theorem edition_parse_partner_witness:
  "edition_parse ''partner-developer'' = ''partner developer''
   \<and> \<not> startsWith ''enterprise'' ''partner-''
   \<and> edition_parse ''enterprise'' = ''enterprise''"
  using edition_parse_partner [where x = "''developer''" and v = "''enterprise''"]
  by (simp add: startsWith_def)

subsection \<open>Selecting the dev hub\<close>

text \<open>Sequencing is associative, and a returned value is passed on.\<close>

lemma io_bind_assoc: "io_bind (io_bind m f) g = io_bind m (\<lambda>x. io_bind (f x) g)"
  by (simp add: io_bind_def split: sum.splits)

lemma io_bind_return: "io_bind (io_return a) f = f a"
  by (simp add: io_bind_def io_return_def)

text \<open>The loop, one candidate at a time.\<close>

lemma findDevHub_Nil: "findDevHub w [] = ([], Inr None)"
  by (simp add: io_return_def)

lemma findDevHub_Cons_probe:
  "findDevHub w (h # rest) =
     io_bind (probe w h)
       (\<lambda>(c, available).
          if available
          then io_bind (io_call (Org_create_call c) (Org_create w c))
                 (\<lambda>hubOrg. io_return (Some hubOrg))
          else findDevHub w rest)"
  by (simp add: probe_def io_bind_assoc io_bind_return)

declare findDevHub.simps [simp del]

text \<open>Candidates whose capacity check answers false are passed over, each probed once.\<close>

lemma findDevHub_skip:
  assumes "\<forall>h\<in>set pre. \<exists>c. snd (probe w h) = Inr (c, False)"
  shows "findDevHub w (pre @ rest) =
     (concat (map (\<lambda>h. fst (probe w h)) pre) @ fst (findDevHub w rest), snd (findDevHub w rest))"
  using assms
proof (induction pre)
  case Nil
  then show ?case by simp
next
  case (Cons h pre)
  from Cons.prems obtain c where c: "snd (probe w h) = Inr (c, False)" by auto
  from Cons.prems have rest: "\<forall>h\<in>set pre. \<exists>c. snd (probe w h) = Inr (c, False)" by simp
  have "findDevHub w ((h # pre) @ rest) =
      (fst (probe w h) @ fst (findDevHub w (pre @ rest)), snd (findDevHub w (pre @ rest)))"
    using c by (simp only: append_Cons findDevHub_Cons_probe) (simp add: io_bind_def)
  then show ?case using Cons.IH [OF rest] by simp
qed

lemma findDevHub_hit:
  assumes "snd (probe w h) = Inr (c, True)"
  shows "findDevHub w (h # rest) =
     (fst (probe w h) @ [Org_create_call c], map_sum id Some (Org_create w c))"
  using assms
  by (simp only: findDevHub_Cons_probe)
    (simp add: io_bind_def io_call_def io_return_def split: sum.splits)

text \<open>
  A candidate that is probed without a rejected call has been contacted three times:
  authorization, connection, and the \<^verbatim>\<open>/limits\<close> request.
\<close>

lemma probe_answered:
  assumes "snd (probe w h) = Inr (c, available)"
  shows "\<exists>a. AuthInfo_create w h = Inr a \<and> Connection_create w a = Inr c
           \<and> snd (canCreateScratchOrg w c) = Inr available
           \<and> fst (probe w h)
               = [AuthInfo_create_call h, Connection_create_call a, request_call c ''/limits'']"
  using assms
  by (auto simp: probe_def canCreateScratchOrg_def getApiLimits_def io_bind_def io_call_def
      io_return_def Let_def split: sum.splits)

text \<open>The answers of the three dev hubs of the example world.\<close>

lemma probe_hubA:
  "probe example_world ''hubA'' =
     ([AuthInfo_create_call ''hubA'', Connection_create_call (AuthInfo ''hubA''),
       request_call (Connection (AuthInfo ''hubA'')) ''/limits''],
      Inr (Connection (AuthInfo ''hubA''), False))"
  by (simp add: probe_def example_world_def example_limits_def canCreateScratchOrg_def
      getApiLimits_def io_bind_def io_call_def io_return_def)

lemma probe_hubB:
  "probe example_world ''hubB'' =
     ([AuthInfo_create_call ''hubB'', Connection_create_call (AuthInfo ''hubB''),
       request_call (Connection (AuthInfo ''hubB'')) ''/limits''],
      Inr (Connection (AuthInfo ''hubB''), True))"
  by (simp add: probe_def example_world_def example_limits_def canCreateScratchOrg_def
      getApiLimits_def io_bind_def io_call_def io_return_def)

lemma probe_hubC:
  "probe example_world ''hubC'' =
     ([AuthInfo_create_call ''hubC''],
      Inl (SfError ''NamedOrgNotFoundError'' ''No authorization information found'' None))"
  by (simp add: probe_def example_world_def io_bind_def io_call_def)

text \<open>
  C2, as the code has it. Let entry \<open>k\<close> (counted from 1) be the first candidate whose
  capacity check answers true, where every candidate before it is probed without a rejected
  call and answers false, and let \<^verbatim>\<open>Org.create\<close> resolve on its connection. Then
  the loop returns that org handle. The calls it makes are the probes of the first \<open>k\<close>
  candidates, in the order of the list, followed by the one \<^verbatim>\<open>Org.create\<close>: no
  candidate after \<open>k\<close> is contacted, and the loop on the whole list is the loop on its
  first \<open>k\<close> entries, whatever the later entries are.
\<close>

theorem findDevHub_first_available:
  assumes "1 \<le> k" and "k \<le> length hubs"
    and "\<forall>j. 1 \<le> j \<and> j < k \<longrightarrow> (\<exists>c'. snd (probe w (hubs ! (j - 1))) = Inr (c', False))"
    and "snd (probe w (hubs ! (k - 1))) = Inr (c, True)"
    and "Org_create w c = Inr hubOrg"
  shows "snd (findDevHub w hubs) = Inr (Some hubOrg)
       \<and> fst (findDevHub w hubs)
           = concat (map (\<lambda>h. fst (probe w h)) (take k hubs)) @ [Org_create_call c]
       \<and> findDevHub w (take k hubs) = findDevHub w hubs"
proof -
  define pre where "pre = take (k - 1) hubs"
  define h where "h = hubs ! (k - 1)"
  have split: "hubs = pre @ h # drop k hubs"
    using assms(1,2) id_take_nth_drop [of "k - 1" hubs] by (simp add: pre_def h_def)
  have tk: "take k hubs = pre @ [h]"
    using assms(1,2) take_Suc_conv_app_nth [of "k - 1" hubs] by (simp add: pre_def h_def)
  have pre: "\<forall>x\<in>set pre. \<exists>c. snd (probe w x) = Inr (c, False)"
  proof
    fix x assume "x \<in> set pre"
    then obtain i where i: "i < length pre" "pre ! i = x" by (auto simp: in_set_conv_nth)
    then have "i < k - 1" by (simp add: pre_def)
    then have "1 \<le> Suc i \<and> Suc i < k" by simp
    then have "\<exists>c'. snd (probe w (hubs ! (Suc i - 1))) = Inr (c', False)" using assms(3) by blast
    moreover have "hubs ! i = x" using i by (simp add: pre_def)
    ultimately show "\<exists>c. snd (probe w x) = Inr (c, False)" by simp
  qed
  have hit: "snd (probe w h) = Inr (c, True)" using assms(4) by (simp add: h_def)
  have full: "findDevHub w (pre @ h # rest) =
      (concat (map (\<lambda>h. fst (probe w h)) (pre @ [h])) @ [Org_create_call c],
       Inr (Some hubOrg))" for rest
    by (simp add: findDevHub_skip [OF pre] findDevHub_hit [OF hit] assms(5))
  have a: "findDevHub w hubs =
      (concat (map (\<lambda>h. fst (probe w h)) (take k hubs)) @ [Org_create_call c],
       Inr (Some hubOrg))"
    using full [of "drop k hubs"] split tk by simp
  have b: "findDevHub w (take k hubs) =
      (concat (map (\<lambda>h. fst (probe w h)) (take k hubs)) @ [Org_create_call c],
       Inr (Some hubOrg))"
    using full [of "[]"] tk by simp
  show ?thesis using a b by simp
qed

theorem findDevHub_first_available_witness:
  "snd (findDevHub example_world [''hubA'', ''hubB'', ''hubC''])
     = Inr (Some \<lparr>org_connection = Connection (AuthInfo ''hubB''),
                  instanceUrl = Some ''https://hub.example.com''\<rparr>)
   \<and> fst (findDevHub example_world [''hubA'', ''hubB'', ''hubC''])
     = [AuthInfo_create_call ''hubA'', Connection_create_call (AuthInfo ''hubA''),
        request_call (Connection (AuthInfo ''hubA'')) ''/limits'',
        AuthInfo_create_call ''hubB'', Connection_create_call (AuthInfo ''hubB''),
        request_call (Connection (AuthInfo ''hubB'')) ''/limits'',
        Org_create_call (Connection (AuthInfo ''hubB''))]"
proof -
  let ?hubs = "[''hubA'', ''hubB'', ''hubC'']"
  have before: "\<forall>j. 1 \<le> j \<and> j < (2::nat) \<longrightarrow>
      (\<exists>c'. snd (probe example_world (?hubs ! (j - 1))) = Inr (c', False))"
  proof (intro allI impI)
    fix j :: nat assume "1 \<le> j \<and> j < 2"
    then have "j = 1" by arith
    then show "\<exists>c'. snd (probe example_world (?hubs ! (j - 1))) = Inr (c', False)"
      by (simp add: probe_hubA)
  qed
  have at: "snd (probe example_world (?hubs ! (2 - 1))) = Inr (Connection (AuthInfo ''hubB''), True)"
    by (simp add: probe_hubB)
  have created: "Org_create example_world (Connection (AuthInfo ''hubB''))
      = Inr \<lparr>org_connection = Connection (AuthInfo ''hubB''),
             instanceUrl = Some ''https://hub.example.com''\<rparr>"
    by (simp add: example_world_def)
  show ?thesis
    using findDevHub_first_available [of 2 ?hubs example_world, OF _ _ before at created]
    by (simp add: probe_hubA probe_hubB numeral_2_eq_2)
qed

text \<open>
  C2 as stated fails when a call of the loop rejects: the loop has no handler, so the
  rejection ends it. With \<^verbatim>\<open>hubC\<close> (not authorized) listed before \<^verbatim>\<open>hubB\<close>,
  the first entry whose capacity check succeeds is \<^verbatim>\<open>hubB\<close>, and the loop raises
  the authorization error of \<^verbatim>\<open>hubC\<close> instead of returning the handle of
  \<^verbatim>\<open>hubB\<close>. And when \<^verbatim>\<open>Org.create\<close> rejects for the chosen hub, the loop
  raises that rejection.
\<close>

lemma probe_update_Org_create: "probe (w\<lparr>Org_create := f\<rparr>) h = probe w h"
  by (simp add: probe_def canCreateScratchOrg_def getApiLimits_def)

theorem findDevHub_failing_candidate:
  "snd (probe example_world ''hubC'')
     = Inl (SfError ''NamedOrgNotFoundError'' ''No authorization information found'' None)
   \<and> snd (probe example_world ''hubB'') = Inr (Connection (AuthInfo ''hubB''), True)
   \<and> snd (findDevHub example_world [''hubC'', ''hubB''])
     = Inl (SfError ''NamedOrgNotFoundError'' ''No authorization information found'' None)
   \<and> snd (probe org_failing_world ''hubA'') = Inr (Connection (AuthInfo ''hubA''), False)
   \<and> snd (probe org_failing_world ''hubB'') = Inr (Connection (AuthInfo ''hubB''), True)
   \<and> snd (findDevHub org_failing_world [''hubA'', ''hubB''])
     = Inl (SfError ''OrgInitError'' ''The org could not be initialized'' None)"
proof -
  have rejected: "Org_create org_failing_world c
      = Inl (SfError ''OrgInitError'' ''The org could not be initialized'' None)" for c
    by (simp add: org_failing_world_def)
  have same: "probe org_failing_world h = probe example_world h" for h
    by (simp add: org_failing_world_def probe_update_Org_create)
  show ?thesis
    by (simp add: findDevHub_Cons_probe same probe_hubA probe_hubB probe_hubC rejected
        io_bind_def io_call_def)
qed

text \<open>
  C3, as the code has it. When every listed candidate is probed without a rejected call and
  its capacity check answers false, \<^verbatim>\<open>run\<close> probes each candidate once, in the order
  of the list, and then raises the error of the message key \<^verbatim>\<open>noAvailableDevhubs\<close>.
  No call has rejected in such a run: the error is the command's own, raised after the
  loop.
\<close>

theorem run_noAvailableDevhubs:
  assumes "hubs = (case target_dev_hub flags of None \<Rightarrow> [] | Some listed \<Rightarrow> listed)"
    and "\<forall>h\<in>set hubs. \<exists>c. snd (probe w h) = Inr (c, False)"
  shows "run w flags =
     (concat (map (\<lambda>h. fst (probe w h)) hubs), Inl (MessagesError ''noAvailableDevhubs''))"
proof -
  have "findDevHub w hubs = (concat (map (\<lambda>h. fst (probe w h)) hubs), Inr None)"
    using findDevHub_skip [OF assms(2), of "[]"] by (simp add: findDevHub_Nil)
  then have "findDevHub w (case target_dev_hub flags of None \<Rightarrow> [] | Some listed \<Rightarrow> listed)
      = (concat (map (\<lambda>h. fst (probe w h)) hubs), Inr None)"
    using assms(1) by simp
  then show ?thesis
    by (simp add: run_def resolveOptions_def io_bind_def io_throw_def)
qed

theorem run_noAvailableDevhubs_witness:
  "run example_world (example_flags\<lparr>target_dev_hub := Some [''hubA'']\<rparr>) =
     ([AuthInfo_create_call ''hubA'', Connection_create_call (AuthInfo ''hubA''),
       request_call (Connection (AuthInfo ''hubA'')) ''/limits''],
      Inl (MessagesError ''noAvailableDevhubs''))"
proof -
  let ?flags = "example_flags\<lparr>target_dev_hub := Some [''hubA'']\<rparr>"
  have listed: "[''hubA''] = (case target_dev_hub ?flags of None \<Rightarrow> [] | Some listed \<Rightarrow> listed)"
    by simp
  have answers: "\<forall>h\<in>set [''hubA'']. \<exists>c. snd (probe example_world h) = Inr (c, False)"
    by (simp add: probe_hubA)
  show ?thesis
    using run_noAvailableDevhubs [OF listed answers] by (simp add: probe_hubA)
qed

text \<open>
  C3 as stated fails when a call for a candidate rejects: \<^verbatim>\<open>run\<close> raises that
  rejection, not the error of \<^verbatim>\<open>noAvailableDevhubs\<close>. With \<^verbatim>\<open>hubC\<close> (not
  authorized) as the only candidate, no capacity check succeeds and the error raised is the
  authorization error.
\<close>

theorem run_failing_candidate:
  "snd (probe example_world ''hubC'')
     = Inl (SfError ''NamedOrgNotFoundError'' ''No authorization information found'' None)
   \<and> snd (run example_world (example_flags\<lparr>target_dev_hub := Some [''hubC'']\<rparr>))
     = Inl (SfError ''NamedOrgNotFoundError'' ''No authorization information found'' None)
   \<and> snd (run example_world (example_flags\<lparr>target_dev_hub := Some [''hubC'']\<rparr>))
     \<noteq> Inl (MessagesError ''noAvailableDevhubs'')"
  by (simp add: run_def resolveOptions_def findDevHub_Cons_probe probe_hubC io_bind_def)

subsection \<open>The configuration of the scratch org\<close>

text \<open>One spread of a flag over the configuration built so far, key by key.\<close>

lemma map_add_overlay:
  "(m ++ overlay key flag) k = (if k = key \<and> truthy flag then map_option JString flag else m k)"
  by (cases flag) (simp_all add: overlay_def map_add_def)

lemma options_orgConfig:
  assumes "definition_file flags = Some path" and "path \<noteq> []"
    and "readDefinition w path = Inr d"
    and "snd (scratchOrgCreateOptions w flags hubOrg) = Inr options"
  shows "o_orgConfig options = orgConfig flags d"
  using assms
  by (auto simp: scratchOrgCreateOptions_def io_bind_def io_call_def io_return_def
      split: if_splits sum.splits)

text \<open>The options assembled in the example world with its definition file.\<close>

lemma example_options:
  "snd (scratchOrgCreateOptions example_world (example_flags\<lparr>edition := e, name := n\<rparr>) example_hubOrg)
   = Inr \<lparr>o_alias = Some ''scratch'', o_apiversion = None, o_clientSecret = None,
           o_connectedAppConsumerKey = None, o_durationDays = 7, o_hubOrg = example_hubOrg,
           o_nonamespace = False, o_noancestors = False,
           o_orgConfig = orgConfig (example_flags\<lparr>edition := e, name := n\<rparr>) example_definition,
           o_setDefault = False, o_tracksSource = True, o_wait = Duration_minutes 5\<rparr>"
  by (simp add: scratchOrgCreateOptions_def example_world_def example_flags_def io_bind_def
      io_call_def io_return_def)

text \<open>
  C5, as the code has it. With a definition file that is read and parsed, the keys of the
  file are the base of \<^verbatim>\<open>orgConfig\<close>: every key other than the seven overlay keys has
  the value of the file. Every flag among \<^verbatim>\<open>edition\<close>, \<^verbatim>\<open>username\<close>,
  \<^verbatim>\<open>description\<close>, \<^verbatim>\<open>name\<close>, \<^verbatim>\<open>release\<close>, \<^verbatim>\<open>source-org\<close> and
  \<^verbatim>\<open>admin-email\<close> whose value is truthy (given and not the empty string) sets its
  key to the value of the flag, whatever the file says.
\<close>

theorem truthy_flag_overrides_definition_file:
  assumes "definition_file flags = Some path" and "path \<noteq> []"
    and "readDefinition w path = Inr d"
    and "snd (scratchOrgCreateOptions w flags hubOrg) = Inr options"
  shows "(truthy (edition flags) \<longrightarrow> o_orgConfig options ''edition'' = map_option JString (edition flags))
       \<and> (truthy (username flags) \<longrightarrow> o_orgConfig options ''username'' = map_option JString (username flags))
       \<and> (truthy (description flags) \<longrightarrow>
            o_orgConfig options ''description'' = map_option JString (description flags))
       \<and> (truthy (name flags) \<longrightarrow> o_orgConfig options ''orgName'' = map_option JString (name flags))
       \<and> (truthy (release flags) \<longrightarrow> o_orgConfig options ''release'' = map_option JString (release flags))
       \<and> (truthy (source_org flags) \<longrightarrow>
            o_orgConfig options ''sourceOrg'' = map_option JString (source_org flags))
       \<and> (truthy (admin_email flags) \<longrightarrow>
            o_orgConfig options ''adminEmail'' = map_option JString (admin_email flags))
       \<and> (\<forall>key. key \<notin> {''edition'', ''username'', ''description'', ''orgName'', ''release'',
                        ''sourceOrg'', ''adminEmail''} \<longrightarrow> o_orgConfig options key = d key)"
  unfolding options_orgConfig [OF assms] orgConfig_def
  by (simp add: map_add_overlay)

theorem truthy_flag_overrides_definition_file_witness:
  "map_sum id (\<lambda>options. (o_orgConfig options ''edition'', o_orgConfig options ''orgName'',
                          o_orgConfig options ''features''))
     (snd (scratchOrgCreateOptions example_world
             (example_flags\<lparr>edition := Some ''partner developer'', name := Some ''From Flag''\<rparr>)
             example_hubOrg))
   = Inr (Some (JString ''partner developer''), Some (JString ''From Flag''), None)"
proof -
  let ?flags = "example_flags\<lparr>edition := Some ''partner developer'', name := Some ''From Flag''\<rparr>"
  have given: "definition_file ?flags = Some ''config/project-scratch-def.json''"
    by (simp add: example_flags_def)
  have path: "''config/project-scratch-def.json'' \<noteq> []"
    by simp
  have parsed: "readDefinition example_world ''config/project-scratch-def.json'' = Inr example_definition"
    by (simp add: example_world_def)
  show ?thesis
    using truthy_flag_overrides_definition_file [OF given path parsed example_options]
    by (simp add: example_options example_definition_def)
qed

text \<open>
  C5 as stated fails for a flag given as the empty string: \<^verbatim>\<open>--name ""\<close> is
  supplied explicitly, and the \<^verbatim>\<open>orgName\<close> of the definition file stays.
\<close>

theorem empty_flag_does_not_override:
  "name example_flags = Some []
   \<and> map_sum id (\<lambda>options. o_orgConfig options ''orgName'')
       (snd (scratchOrgCreateOptions example_world example_flags example_hubOrg))
     = Inr (Some (JString ''From File''))"
  using example_options [where e = None and n = "Some []"]
  by (simp add: example_flags_def orgConfig_def map_add_overlay example_definition_def)

text \<open>
  C10. With a definition file that is read and parsed, every flag among \<^verbatim>\<open>edition\<close>,
  \<^verbatim>\<open>username\<close>, \<^verbatim>\<open>description\<close>, \<^verbatim>\<open>name\<close>, \<^verbatim>\<open>release\<close>,
  \<^verbatim>\<open>source-org\<close> and \<^verbatim>\<open>admin-email\<close> whose value is falsy (not given, or the
  empty string) leaves its key as the definition file has it.
\<close>

theorem falsy_flag_keeps_definition_file:
  assumes "definition_file flags = Some path" and "path \<noteq> []"
    and "readDefinition w path = Inr d"
    and "snd (scratchOrgCreateOptions w flags hubOrg) = Inr options"
  shows "(\<not> truthy (edition flags) \<longrightarrow> o_orgConfig options ''edition'' = d ''edition'')
       \<and> (\<not> truthy (username flags) \<longrightarrow> o_orgConfig options ''username'' = d ''username'')
       \<and> (\<not> truthy (description flags) \<longrightarrow> o_orgConfig options ''description'' = d ''description'')
       \<and> (\<not> truthy (name flags) \<longrightarrow> o_orgConfig options ''orgName'' = d ''orgName'')
       \<and> (\<not> truthy (release flags) \<longrightarrow> o_orgConfig options ''release'' = d ''release'')
       \<and> (\<not> truthy (source_org flags) \<longrightarrow> o_orgConfig options ''sourceOrg'' = d ''sourceOrg'')
       \<and> (\<not> truthy (admin_email flags) \<longrightarrow> o_orgConfig options ''adminEmail'' = d ''adminEmail'')"
  unfolding options_orgConfig [OF assms] orgConfig_def
  by (simp add: map_add_overlay)

theorem falsy_flag_keeps_definition_file_witness:
  "map_sum id (\<lambda>options. (o_orgConfig options ''edition'', o_orgConfig options ''orgName''))
     (snd (scratchOrgCreateOptions example_world
             (example_flags\<lparr>edition := None, name := Some []\<rparr>) example_hubOrg))
   = Inr (Some (JString ''Developer''), Some (JString ''From File''))"
proof -
  let ?flags = "example_flags\<lparr>edition := None, name := Some []\<rparr>"
  have given: "definition_file ?flags = Some ''config/project-scratch-def.json''"
    by (simp add: example_flags_def)
  have path: "''config/project-scratch-def.json'' \<noteq> []"
    by simp
  have parsed: "readDefinition example_world ''config/project-scratch-def.json'' = Inr example_definition"
    by (simp add: example_world_def)
  show ?thesis
    using falsy_flag_keeps_definition_file [OF given path parsed example_options]
    by (simp add: example_options example_definition_def)
qed

subsection \<open>The provisioning call\<close>

text \<open>\<^verbatim>\<open>run\<close> is its first part followed, when that part succeeds, by the provisioning.\<close>

lemma run_reached:
  assumes "resolveOptions w flags = (t, Inr (baseUrl, options))"
  shows "run w flags =
     (t @ fst (createScratchOrg w flags baseUrl options),
      snd (createScratchOrg w flags baseUrl options))"
  using assms by (simp add: run_def io_bind_def)

lemma run_not_reached:
  assumes "snd (resolveOptions w flags) = Inl e"
  shows "run w flags = (fst (resolveOptions w flags), Inl e)"
  using assms by (simp add: run_def io_bind_def)

text \<open>The four ways the \<^verbatim>\<open>try\<close> statement ends.\<close>

lemma createScratchOrg_rethrow:
  assumes "snd (scratchOrgCreate w options) = Inl error" and "\<not> isTimeoutError error"
  shows "createScratchOrg w flags baseUrl options = (started w flags baseUrl options, Inl error)"
  using assms
  by (simp add: createScratchOrg_def started_def io_bind_def io_catch_def io_emit_def
      io_return_def io_throw_def)

lemma createScratchOrg_timeout:
  assumes "snd (scratchOrgCreate w options) = Inl error" and "isTimeoutError error"
    and "error_data error = Some (JObject data)"
  shows "createScratchOrg w flags baseUrl options =
     (started w flags baseUrl options
      @ [spinner_stop (lastStatus w flags baseUrl options),
         info_call (Message ''action.resume''
                      [Some (JString (config_bin w)), map_of data ''scratchOrgInfoId''])],
      Inl (CLIError ''The scratch org did not complete within your wait time'' ''69'' 69))"
  using assms
  by (simp add: createScratchOrg_def started_def io_bind_def io_catch_def io_emit_def
      io_return_def io_throw_def)

lemma createScratchOrg_no_info:
  assumes "snd (scratchOrgCreate w options) = Inr result" and "r_scratchOrgInfo result = None"
  shows "createScratchOrg w flags baseUrl options =
     (started w flags baseUrl options @ [spinner_stop (lastStatus w flags baseUrl options)],
      Inl (new_SfError ''The scratch org did not return with any information''))"
  using assms
  by (simp add: createScratchOrg_def started_def io_bind_def io_catch_def io_emit_def
      io_return_def io_throw_def new_SfError_def)

lemma createScratchOrg_success:
  assumes "snd (scratchOrgCreate w options) = Inr result"
    and "r_scratchOrgInfo result = Some scratchOrgInfo"
  shows "createScratchOrg w flags baseUrl options =
     (started w flags baseUrl options
      @ [spinner_stop (lastStatus w flags baseUrl options), log_call,
         if async flags
         then info_call (Message ''action.resume''
                [Some (JString (config_bin w)), map_option JString (Id scratchOrgInfo)])
         else logSuccess_call (Message ''success'' [])],
      Inr \<lparr>s_username = r_username result,
           s_scratchOrgInfo = scratchOrgInfo,
           s_authFields = r_authFields result,
           s_warnings = r_warnings result,
           s_orgId = (case r_authFields result of None \<Rightarrow> None | Some a \<Rightarrow> orgId a)\<rparr>)"
  using assms
  by (simp add: createScratchOrg_def started_def io_bind_def io_catch_def io_emit_def
      io_return_def io_throw_def)

text \<open>The first part of \<^verbatim>\<open>run\<close> neither subscribes nor calls the workflow.\<close>

lemma getApiLimits_events: "\<forall>ev\<in>set (fst (getApiLimits w c)). \<not> workflow_event ev"
  by (simp add: getApiLimits_def io_bind_def io_call_def io_return_def split: sum.splits)

lemma canCreateScratchOrg_events: "\<forall>ev\<in>set (fst (canCreateScratchOrg w c)). \<not> workflow_event ev"
  using getApiLimits_events [of w c]
  by (simp add: canCreateScratchOrg_def io_bind_def io_return_def Let_def split: sum.splits)

lemma probe_events: "\<forall>ev\<in>set (fst (probe w h)). \<not> workflow_event ev"
  using canCreateScratchOrg_events [of w]
  by (auto simp: probe_def io_bind_def io_call_def io_return_def split: sum.splits)

lemma findDevHub_events: "\<forall>ev\<in>set (fst (findDevHub w hubs)). \<not> workflow_event ev"
proof (induction hubs)
  case Nil
  show ?case by (simp add: findDevHub_Nil)
next
  case (Cons h hubs)
  show ?case
    using probe_events [of w h] Cons.IH
    by (auto simp: findDevHub_Cons_probe io_bind_def io_call_def io_return_def
        split: sum.splits prod.splits if_splits)
qed

lemma scratchOrgCreateOptions_events:
  "\<forall>ev\<in>set (fst (scratchOrgCreateOptions w flags hubOrg)). \<not> workflow_event ev"
  by (auto simp: scratchOrgCreateOptions_def io_bind_def io_call_def io_return_def
      split: sum.splits option.splits if_splits)

lemma resolveOptions_events: "\<forall>ev\<in>set (fst (resolveOptions w flags)). \<not> workflow_event ev"
  using findDevHub_events [of w] scratchOrgCreateOptions_events [of w flags]
  by (auto simp: resolveOptions_def io_bind_def io_throw_def io_return_def
      split: sum.splits option.splits if_splits)

lemma scratchOrgCreateOptions_wait:
  assumes "snd (scratchOrgCreateOptions w flags hubOrg) = Inr options"
  shows "o_wait options = (if async flags then Duration_minutes 0 else wait flags)"
  using assms
  by (auto simp: scratchOrgCreateOptions_def io_bind_def io_call_def io_return_def
      split: sum.splits option.splits if_splits)

lemma resolveOptions_wait:
  assumes "snd (resolveOptions w flags) = Inr (baseUrl, options)"
  shows "o_wait options = (if async flags then Duration_minutes 0 else wait flags)"
  using assms scratchOrgCreateOptions_wait [of w flags _ options]
  by (auto simp: resolveOptions_def io_bind_def io_throw_def io_return_def
      split: sum.splits option.splits if_splits)

lemma data_scratchOrgInfoId_events: "fst (data_scratchOrgInfoId d) = []"
  by (cases d rule: data_scratchOrgInfoId.cases) (simp_all add: io_throw_def io_return_def)

lemma createScratchOrg_events:
  "\<exists>tail. fst (createScratchOrg w flags baseUrl options) = started w flags baseUrl options @ tail
     \<and> (\<forall>ev\<in>set tail. \<not> workflow_event ev)"
proof (cases "snd (scratchOrgCreate w options)")
  case (Inr result)
  then show ?thesis
    by (cases "r_scratchOrgInfo result")
      (simp_all add: createScratchOrg_no_info createScratchOrg_success)
next
  case (Inl error)
  show ?thesis
  proof (cases "isTimeoutError error")
    case False
    then show ?thesis by (simp add: createScratchOrg_rethrow [OF Inl])
  next
    case True
    then show ?thesis
      using Inl data_scratchOrgInfoId_events [of "error_data error"]
      by (simp add: createScratchOrg_def started_def io_bind_def io_catch_def io_emit_def
          io_return_def io_throw_def split: sum.splits)
  qed
qed

text \<open>The first part of \<^verbatim>\<open>run\<close> does not depend on the workflow; its result in the example world.\<close>

lemma probe_update: "probe (w\<lparr>scratchOrgCreate := f\<rparr>) h = probe w h"
  by (simp add: probe_def canCreateScratchOrg_def getApiLimits_def)

lemma findDevHub_update: "findDevHub (w\<lparr>scratchOrgCreate := f\<rparr>) hubs = findDevHub w hubs"
  by (induction hubs)
    (simp_all add: findDevHub_Nil findDevHub_Cons_probe probe_update cong: if_cong)

lemma resolveOptions_update:
  "resolveOptions (w\<lparr>scratchOrgCreate := f\<rparr>) flags = resolveOptions w flags"
  by (simp add: resolveOptions_def findDevHub_update scratchOrgCreateOptions_def
      cong: if_cong option.case_cong)

lemma example_resolveOptions:
  "snd (resolveOptions example_world (example_flags\<lparr>async := a\<rparr>))
     = Inr (''https://hub.example.com'', example_workflow_options a)"
proof -
  have created: "Org_create example_world (Connection (AuthInfo ''hubB'')) = Inr example_hubOrg"
    by (simp add: example_world_def example_hubOrg_def)
  have hub: "findDevHub example_world [''hubA'', ''hubB'']
      = (fst (probe example_world ''hubA'') @ fst (probe example_world ''hubB'')
           @ [Org_create_call (Connection (AuthInfo ''hubB''))],
         Inr (Some example_hubOrg))"
    by (simp add: findDevHub_Cons_probe probe_hubA probe_hubB created io_bind_def io_call_def
        io_return_def)
  have listed: "target_dev_hub (example_flags\<lparr>async := a\<rparr>) = Some [''hubA'', ''hubB'']"
    by (simp add: example_flags_def)
  have options: "snd (scratchOrgCreateOptions example_world (example_flags\<lparr>async := a\<rparr>) example_hubOrg)
      = Inr (example_workflow_options a)"
    by (simp add: scratchOrgCreateOptions_def example_workflow_options_def example_world_def
        example_flags_def io_bind_def io_call_def io_return_def)
  have url: "instanceUrl example_hubOrg = Some ''https://hub.example.com''"
    by (simp add: example_hubOrg_def)
  show ?thesis
    by (simp add: resolveOptions_def listed hub url options io_bind_def io_return_def)
qed

text \<open>
  C4. Let \<^verbatim>\<open>run\<close> reach the provisioning call and let the call throw. If the thrown
  value is an \<^verbatim>\<open>SfError\<close> named \<^verbatim>\<open>ScratchOrgInfoTimeoutError\<close> whose data carry a
  job identifier, the command shows the resume hint made from the binary name and that
  identifier, and ends with the error of \<^verbatim>\<open>this.error\<close> whose exit code is 69. If the
  thrown value is not an \<^verbatim>\<open>SfError\<close> of that name, it is rethrown as it is.
\<close>

theorem run_timeout:
  assumes "resolveOptions w flags = (t, Inr (baseUrl, options))"
    and "snd (scratchOrgCreate w options) = Inl error"
  shows "(\<forall>message data jobId.
            error = SfError ''ScratchOrgInfoTimeoutError'' message (Some (JObject data))
            \<and> map_of data ''scratchOrgInfoId'' = Some jobId \<longrightarrow>
            snd (run w flags)
              = Inl (CLIError ''The scratch org did not complete within your wait time'' ''69'' 69)
            \<and> info_call (Message ''action.resume'' [Some (JString (config_bin w)), Some jobId])
                \<in> set (fst (run w flags)))
       \<and> (\<not> isTimeoutError error \<longrightarrow> snd (run w flags) = Inl error)"
proof (intro conjI allI impI)
  fix message data jobId
  assume timeout: "error = SfError ''ScratchOrgInfoTimeoutError'' message (Some (JObject data))
    \<and> map_of data ''scratchOrgInfoId'' = Some jobId"
  then have "isTimeoutError error" and "error_data error = Some (JObject data)" by simp_all
  from createScratchOrg_timeout [OF assms(2) this]
  have "createScratchOrg w flags baseUrl options =
     (started w flags baseUrl options
      @ [spinner_stop (lastStatus w flags baseUrl options),
         info_call (Message ''action.resume'' [Some (JString (config_bin w)), Some jobId])],
      Inl (CLIError ''The scratch org did not complete within your wait time'' ''69'' 69))"
    using timeout by simp
  then show "snd (run w flags)
      = Inl (CLIError ''The scratch org did not complete within your wait time'' ''69'' 69)"
    and "info_call (Message ''action.resume'' [Some (JString (config_bin w)), Some jobId])
      \<in> set (fst (run w flags))"
    by (simp_all add: run_reached [OF assms(1)])
next
  assume "\<not> isTimeoutError error"
  then show "snd (run w flags) = Inl error"
    by (simp add: run_reached [OF assms(1)] createScratchOrg_rethrow [OF assms(2)])
qed

theorem run_timeout_witness:
  "snd (run timeout_world example_flags)
     = Inl (CLIError ''The scratch org did not complete within your wait time'' ''69'' 69)
   \<and> info_call (Message ''action.resume'' [Some (JString ''sf''), Some (JString ''2SR000000000001'')])
       \<in> set (fst (run timeout_world example_flags))
   \<and> snd (run failing_world example_flags)
     = Inl (SfError ''RemoteOrgSignupFailed'' ''The request to create a scratch org failed'' None)"
proof -
  have flags: "example_flags = example_flags\<lparr>async := False\<rparr>"
    by (simp add: example_flags_def)
  have resolved_timeout: "resolveOptions timeout_world example_flags
      = (fst (resolveOptions timeout_world example_flags),
         Inr (''https://hub.example.com'', example_workflow_options False))"
    using example_resolveOptions [of False]
    by (simp add: prod_eq_iff timeout_world_def resolveOptions_update flags [symmetric])
  have thrown_timeout: "snd (scratchOrgCreate timeout_world (example_workflow_options False))
      = Inl (SfError ''ScratchOrgInfoTimeoutError'' ''The scratch org did not complete''
               (Some (JObject [(''scratchOrgInfoId'', JString ''2SR000000000001'')])))"
    by (simp add: timeout_world_def)
  have resolved_failing: "resolveOptions failing_world example_flags
      = (fst (resolveOptions failing_world example_flags),
         Inr (''https://hub.example.com'', example_workflow_options False))"
    using example_resolveOptions [of False]
    by (simp add: prod_eq_iff failing_world_def resolveOptions_update flags [symmetric])
  have thrown_failing: "snd (scratchOrgCreate failing_world (example_workflow_options False))
      = Inl (SfError ''RemoteOrgSignupFailed'' ''The request to create a scratch org failed'' None)"
    by (simp add: failing_world_def)
  have bin: "config_bin timeout_world = ''sf''"
    by (simp add: timeout_world_def example_world_def)
  show ?thesis
    using run_timeout [OF resolved_timeout thrown_timeout]
      run_timeout [OF resolved_failing thrown_failing]
    by (simp add: bin)
qed

text \<open>
  C8. Let \<^verbatim>\<open>run\<close> reach the provisioning call and let the call resolve. Without
  scratch-org info in the payload the command raises the \<^verbatim>\<open>SfError\<close>
  \<^verbatim>\<open>The scratch org did not return with any information\<close> and returns nothing; with
  scratch-org info it returns the record of \<^verbatim>\<open>username\<close>, \<^verbatim>\<open>scratchOrgInfo\<close>,
  \<^verbatim>\<open>authFields\<close>, \<^verbatim>\<open>warnings\<close> and \<^verbatim>\<open>orgId\<close>, the last read from the
  \<^verbatim>\<open>authFields\<close>.
\<close>

theorem run_result:
  assumes "resolveOptions w flags = (t, Inr (baseUrl, options))"
    and "snd (scratchOrgCreate w options) = Inr result"
  shows "(r_scratchOrgInfo result = None \<longrightarrow>
            snd (run w flags)
              = Inl (new_SfError ''The scratch org did not return with any information''))
       \<and> (\<forall>scratchOrgInfo. r_scratchOrgInfo result = Some scratchOrgInfo \<longrightarrow>
            snd (run w flags)
              = Inr \<lparr>s_username = r_username result,
                     s_scratchOrgInfo = scratchOrgInfo,
                     s_authFields = r_authFields result,
                     s_warnings = r_warnings result,
                     s_orgId = (case r_authFields result of None \<Rightarrow> None | Some a \<Rightarrow> orgId a)\<rparr>)"
  by (simp add: run_reached [OF assms(1)] createScratchOrg_no_info [OF assms(2)]
      createScratchOrg_success [OF assms(2)])

theorem run_result_witness:
  "snd (run empty_world example_flags)
     = Inl (SfError ''SfError'' ''The scratch org did not return with any information'' None)
   \<and> snd (run example_world example_flags)
     = Inr \<lparr>s_username = Some ''test-abc@example.com'',
            s_scratchOrgInfo = \<lparr>Id = Some ''2SR000000000001''\<rparr>,
            s_authFields = Some \<lparr>orgId = Some ''00D000000000001''\<rparr>,
            s_warnings = [],
            s_orgId = Some ''00D000000000001''\<rparr>"
proof -
  have flags: "example_flags = example_flags\<lparr>async := False\<rparr>"
    by (simp add: example_flags_def)
  have resolved_empty: "resolveOptions empty_world example_flags
      = (fst (resolveOptions empty_world example_flags),
         Inr (''https://hub.example.com'', example_workflow_options False))"
    using example_resolveOptions [of False]
    by (simp add: prod_eq_iff empty_world_def resolveOptions_update flags [symmetric])
  have answer_empty: "snd (scratchOrgCreate empty_world (example_workflow_options False))
      = Inr (example_result\<lparr>r_scratchOrgInfo := None\<rparr>)"
    by (simp add: empty_world_def)
  have resolved: "resolveOptions example_world example_flags
      = (fst (resolveOptions example_world example_flags),
         Inr (''https://hub.example.com'', example_workflow_options False))"
    using example_resolveOptions [of False]
    by (simp add: prod_eq_iff flags [symmetric])
  have answer: "snd (scratchOrgCreate example_world (example_workflow_options False))
      = Inr example_result"
    by (simp add: example_world_def)
  show ?thesis
    using run_result [OF resolved_empty answer_empty] run_result [OF resolved answer]
    by (simp add: example_result_def new_SfError_def)
qed

text \<open>
  C6. In every run with \<^verbatim>\<open>async\<close> set there is no subscription to the lifecycle event,
  and whenever the workflow is called its wait is zero minutes. In every run without
  \<^verbatim>\<open>async\<close>, whenever the workflow is called its wait is the value of the
  \<^verbatim>\<open>wait\<close> flag and the subscription has been made before the call.
\<close>

theorem async_wait_and_subscription:
  "(async flags \<longrightarrow>
      Lifecycle_on \<notin> set (fst (run w flags))
      \<and> (\<forall>options. scratchOrgCreate_call options \<in> set (fst (run w flags)) \<longrightarrow>
            o_wait options = Duration_minutes 0))
   \<and> (\<not> async flags \<longrightarrow>
      (\<forall>options. scratchOrgCreate_call options \<in> set (fst (run w flags)) \<longrightarrow>
         o_wait options = wait flags
         \<and> (\<exists>before after. fst (run w flags) = before @ Lifecycle_on # after
               \<and> scratchOrgCreate_call options \<in> set after)))"
proof (cases "snd (resolveOptions w flags)")
  case (Inl e)
  have "\<forall>ev\<in>set (fst (run w flags)). \<not> workflow_event ev"
    using resolveOptions_events [of w flags] by (simp add: run_not_reached [OF Inl])
  then have "Lifecycle_on \<notin> set (fst (run w flags))"
    and "\<And>options. scratchOrgCreate_call options \<notin> set (fst (run w flags))"
    by fastforce+
  then show ?thesis by simp
next
  case (Inr reached)
  obtain baseUrl options where reached: "reached = (baseUrl, options)" by (cases reached)
  define t where "t = fst (resolveOptions w flags)"
  have resolved: "resolveOptions w flags = (t, Inr (baseUrl, options))"
    using Inr reached by (simp add: t_def prod_eq_iff)
  have quiet: "\<forall>ev\<in>set t. \<not> workflow_event ev"
    using resolveOptions_events [of w flags] by (simp add: t_def)
  obtain tail where tail: "fst (createScratchOrg w flags baseUrl options)
      = started w flags baseUrl options @ tail" "\<forall>ev\<in>set tail. \<not> workflow_event ev"
    using createScratchOrg_events by blast
  have trace: "fst (run w flags) = t @ started w flags baseUrl options @ tail"
    by (simp add: run_reached [OF resolved] tail(1))
  have passed: "o_wait options = (if async flags then Duration_minutes 0 else wait flags)"
    using resolveOptions_wait [of w flags baseUrl options] Inr reached by simp
  have only: "options' = options" if "scratchOrgCreate_call options' \<in> set (fst (run w flags))"
    for options'
    using that quiet tail(2) by (auto simp: trace started_def split: if_splits)
  have unsubscribed: "Lifecycle_on \<notin> set (fst (run w flags))" if "async flags"
    using that quiet tail(2) by (auto simp: trace started_def)
  have subscribed: "\<exists>before after. fst (run w flags) = before @ Lifecycle_on # after
      \<and> scratchOrgCreate_call options \<in> set after" if "\<not> async flags"
  proof (intro exI conjI)
    show "fst (run w flags) = t @ Lifecycle_on #
        ([log_call, spinner_start (Literal ''Creating Scratch Org''), scratchOrgCreate_call options]
         @ map spinner_status (statuses w flags baseUrl options) @ tail)"
      using that by (simp add: trace started_def)
    show "scratchOrgCreate_call options \<in> set
        ([log_call, spinner_start (Literal ''Creating Scratch Org''), scratchOrgCreate_call options]
         @ map spinner_status (statuses w flags baseUrl options) @ tail)"
      by simp
  qed
  show ?thesis
    using only passed unsubscribed subscribed by auto
qed

theorem async_wait_and_subscription_witness:
  "scratchOrgCreate_call (example_workflow_options True)
     \<in> set (fst (run example_world (example_flags\<lparr>async := True\<rparr>)))
   \<and> o_wait (example_workflow_options True) = Duration_minutes 0
   \<and> Lifecycle_on \<notin> set (fst (run example_world (example_flags\<lparr>async := True\<rparr>)))
   \<and> scratchOrgCreate_call (example_workflow_options False)
     \<in> set (fst (run example_world (example_flags\<lparr>async := False\<rparr>)))
   \<and> o_wait (example_workflow_options False) = Duration_minutes 5
   \<and> Lifecycle_on \<in> set (fst (run example_world (example_flags\<lparr>async := False\<rparr>)))"
proof -
  have resolved: "resolveOptions example_world (example_flags\<lparr>async := a\<rparr>)
      = (fst (resolveOptions example_world (example_flags\<lparr>async := a\<rparr>)),
         Inr (''https://hub.example.com'', example_workflow_options a))" for a
    using example_resolveOptions [of a] by (simp add: prod_eq_iff)
  have answer: "snd (scratchOrgCreate example_world (example_workflow_options a))
      = Inr example_result" for a
    by (simp add: example_world_def)
  have info: "r_scratchOrgInfo example_result = Some \<lparr>Id = Some ''2SR000000000001''\<rparr>"
    by (simp add: example_result_def)
  have called: "scratchOrgCreate_call (example_workflow_options a)
      \<in> set (fst (run example_world (example_flags\<lparr>async := a\<rparr>)))" for a
    by (simp add: run_reached [OF resolved] createScratchOrg_success [OF answer info] started_def)
  have waits: "wait (example_flags\<lparr>async := False\<rparr>) = Duration_minutes 5"
    by (simp add: example_flags_def)
  show ?thesis
    using async_wait_and_subscription [of "example_flags\<lparr>async := True\<rparr>" example_world]
      async_wait_and_subscription [of "example_flags\<lparr>async := False\<rparr>" example_world]
      called [of True] called [of False] waits
    by auto
qed

end
